theory Spec2Isabelle
  imports Main "HOL-Library.Sublist"
begin

section \<open>Python values\<close>

text \<open>
  The program is dynamically typed: the fields of a \<open>Book\<close> hold whatever the caller or
  \<open>json.load\<close> supplies. The values that can reach a field are those of the JSON data
  model as Python sees them: \<open>None\<close>, \<open>bool\<close>, \<open>int\<close>, \<open>str\<close>, \<open>list\<close> and \<open>dict\<close> with string
  keys. A \<open>dict\<close> is the list of its items in insertion order. Numbers are represented by
  the integers; the program never computes with a number. A \<open>str\<close> is the list of the
  bytes of its UTF-8 encoding, which for ASCII text is the list of its characters; equality
  and the substring test of two strings are those of the two lists of bytes.
\<close>

datatype json =
    JNull
  | JBool bool
  | JInt int
  | JStr string
  | JArr "json list"
  | JObj "(string \<times> json) list"

text \<open>
  Python's \<open>==\<close> on these values: \<open>True == 1\<close> and \<open>False == 0\<close> hold, lists are compared
  element by element, dicts by their keys and the values under them (the order of the
  items is ignored), and values of different kinds are unequal otherwise.
\<close>

fun py_eq :: "json \<Rightarrow> json \<Rightarrow> bool" where
  "py_eq JNull JNull = True"
| "py_eq (JBool a) (JBool b) = (a = b)"
| "py_eq (JBool a) (JInt n) = (n = (if a then 1 else 0))"
| "py_eq (JInt n) (JBool a) = (n = (if a then 1 else 0))"
| "py_eq (JInt m) (JInt n) = (m = n)"
| "py_eq (JStr s) (JStr t) = (s = t)"
| "py_eq (JArr xs) (JArr ys) = list_all2 py_eq xs ys"
| "py_eq (JObj xs) (JObj ys) =
     (length xs = length ys \<and>
      list_all (\<lambda>(k, v). case map_of ys k of None \<Rightarrow> False | Some w \<Rightarrow> py_eq v w) xs)"
| "py_eq _ _ = False"

text \<open>The exceptions the program can meet.\<close>

datatype exn = TypeError | AttributeError | JSONDecodeError | OSError

subsection \<open>The string methods the program calls\<close>

text \<open>
  \<open>str.lower\<close> and \<open>str.capitalize\<close> follow the Unicode tables of the interpreter: they
  depend on the neighbours of a character (a capital sigma at the end of a word becomes
  the final sigma) and may change the length of the string. On a string of ASCII
  characters they map the letters A to Z and a to z, character by character, and this is
  all the model spells out; on any other string the result is what the interpreter's
  tables give, taken as the parameter \<open>U\<close>.
\<close>

record unicode =
  str_lower :: "string \<Rightarrow> string"
  str_capitalize :: "string \<Rightarrow> string"

text \<open>\<open>str.isascii\<close>: no byte has its high bit set.\<close>

definition isascii :: "string \<Rightarrow> bool" where
  "isascii s = list_all (\<lambda>c. \<not> digit7 c) s"

definition ascii_uppercase :: string where
  "ascii_uppercase = ''ABCDEFGHIJKLMNOPQRSTUVWXYZ''"

definition ascii_lowercase :: string where
  "ascii_lowercase = ''abcdefghijklmnopqrstuvwxyz''"

definition lower_char :: "char \<Rightarrow> char" where
  "lower_char c =
     (case map_of (zip ascii_uppercase ascii_lowercase) c of Some d \<Rightarrow> d | None \<Rightarrow> c)"

definition upper_char :: "char \<Rightarrow> char" where
  "upper_char c =
     (case map_of (zip ascii_lowercase ascii_uppercase) c of Some d \<Rightarrow> d | None \<Rightarrow> c)"

definition lower :: "unicode \<Rightarrow> string \<Rightarrow> string" where
  "lower U s = (if isascii s then map lower_char s else str_lower U s)"

text \<open>\<open>str.capitalize\<close> on ASCII: the first character in upper case, the rest in lower case.\<close>

definition capitalize :: "unicode \<Rightarrow> string \<Rightarrow> string" where
  "capitalize U s =
     (if isascii s
      then (case s of [] \<Rightarrow> [] | c # cs \<Rightarrow> upper_char c # map lower_char cs)
      else str_capitalize U s)"

text \<open>\<open>s.startswith(p)\<close>, and the substring test \<open>needle in hay\<close> of two strings.\<close>

fun startswith :: "string \<Rightarrow> string \<Rightarrow> bool" where
  "startswith s [] = True"
| "startswith [] (p # ps) = False"
| "startswith (c # cs) (p # ps) = (c = p \<and> startswith cs ps)"

fun str_in :: "string \<Rightarrow> string \<Rightarrow> bool" where
  "str_in needle [] = (needle = [])"
| "str_in needle (c # cs) = (startswith (c # cs) needle \<or> str_in needle cs)"

text \<open>
  A method of \<open>str\<close> called on a field: \<open>AttributeError\<close> when the value is not a \<open>str\<close>
  (none of the other values has a \<open>lower\<close> or a \<open>capitalize\<close>).
\<close>

fun call_lower :: "unicode \<Rightarrow> json \<Rightarrow> exn + string" where
  "call_lower U (JStr s) = Inr (lower U s)"
| "call_lower U _ = Inl AttributeError"

fun call_capitalize :: "unicode \<Rightarrow> json \<Rightarrow> exn + string" where
  "call_capitalize U (JStr s) = Inr (capitalize U s)"
| "call_capitalize U _ = Inl AttributeError"

section \<open>The class Book\<close>

record book =
  title :: json
  author :: json
  isbn :: json
  status :: json

text \<open>\<open>Book.__init__(title, author, isbn, status="available")\<close>; \<open>None\<close> for an omitted status.\<close>

definition Book_init :: "json \<Rightarrow> json \<Rightarrow> json \<Rightarrow> json option \<Rightarrow> book" where
  "Book_init t a i s =
     \<lparr>title = t, author = a, isbn = i,
      status = (case s of None \<Rightarrow> JStr ''available'' | Some v \<Rightarrow> v)\<rparr>"

text \<open>
  \<open>Book.__str__\<close>: the f-string
  \<open>Title: {title}, Author: {author}, ISBN: {isbn}, Status: {status.capitalize()}\<close>,
  kept as its four formatted values.
\<close>

datatype book_text = Book_text json json json string

definition Book_str :: "unicode \<Rightarrow> book \<Rightarrow> exn + book_text" where
  "Book_str U self =
     (case call_capitalize U (status self) of
        Inl e \<Rightarrow> Inl e
      | Inr s \<Rightarrow> Inr (Book_text (title self) (author self) (isbn self) s))"

definition to_dict :: "book \<Rightarrow> json" where
  "to_dict self =
     JObj [(''title'', title self), (''author'', author self),
           (''isbn'', isbn self), (''status'', status self)]"

text \<open>\<open>Book.issue\<close> and \<open>Book.return_book\<close>: the returned flag and the object afterwards.\<close>

definition Book_issue :: "book \<Rightarrow> bool \<times> book" where
  "Book_issue self =
     (if py_eq (status self) (JStr ''available'')
      then (True, self\<lparr>status := JStr ''issued''\<rparr>)
      else (False, self))"

definition Book_return_book :: "book \<Rightarrow> bool \<times> book" where
  "Book_return_book self =
     (if py_eq (status self) (JStr ''issued'')
      then (True, self\<lparr>status := JStr ''available''\<rparr>)
      else (False, self))"

definition is_available :: "book \<Rightarrow> bool" where
  "is_available self = py_eq (status self) (JStr ''available'')"

text \<open>
  \<open>Book(**book_data)\<close>: the keyword arguments are bound to the parameters. A value that is
  not a mapping, a key that is no parameter of \<open>__init__\<close> and a missing \<open>title\<close>, \<open>author\<close>
  or \<open>isbn\<close> raise \<open>TypeError\<close>; a missing \<open>status\<close> takes the default.
\<close>

definition Book_parameters :: "string list" where
  "Book_parameters = [''title'', ''author'', ''isbn'', ''status'']"

fun Book_kwargs :: "json \<Rightarrow> exn + book" where
  "Book_kwargs (JObj kw) =
     (if list_ex (\<lambda>k. k \<notin> set Book_parameters) (map fst kw) then Inl TypeError
      else
        (case (map_of kw ''title'', map_of kw ''author'', map_of kw ''isbn'') of
           (Some t, Some a, Some i) \<Rightarrow> Inr (Book_init t a i (map_of kw ''status''))
         | _ \<Rightarrow> Inl TypeError))"
| "Book_kwargs _ = Inl TypeError"

section \<open>The world outside the process\<close>

text \<open>
  \<open>json.dump\<close> and \<open>json.load\<close> are library code. A file is what \<open>open\<close> and \<open>json.load\<close>
  make of it: a text that decodes to a value, a text on which \<open>json.load\<close> raises
  \<open>JSONDecodeError\<close>, or a file on which \<open>open\<close>, the read or \<open>json.load\<close> raises another
  exception. \<open>json.dump\<close> of a value writes a text that decodes to that value; the text is a
  function of the value (the items of a dict are written in their order) and of the fixed
  argument \<open>indent=4\<close>.
\<close>

datatype file_content = Decodes json | Undecodable | Unreadable

text \<open>
  What \<open>Path.exists()\<close> finds at a path: no file (\<open>False\<close>), a file (\<open>True\<close>), or a location
  it cannot examine, where it raises \<open>OSError\<close> (a name longer than the file system allows,
  a directory that may not be searched).
\<close>

datatype location = Missing | Holds file_content | Barred

text \<open>
  What an attempt to write a document to a path comes to. \<open>Written\<close>: \<open>mkdir\<close>, \<open>open\<close> and
  \<open>json.dump\<close> all succeed and the file holds the text of the document. \<open>Refused\<close>: \<open>mkdir\<close>
  or \<open>open\<close> raises and the file is as it was. \<open>Torn\<close>: \<open>open(..., 'w')\<close> has truncated the
  file and \<open>json.dump\<close> raises (the device is full, the document holds a value that cannot
  be written); the file is left with a proper prefix of the text of an array, which
  \<open>json.load\<close> does not decode.
\<close>

datatype write_result = Written | Refused | Torn

datatype level = INFO | WARNING | ERROR | CRITICAL

text \<open>The messages of the logger, one constructor for each call in the source.\<close>

datatype log_msg =
    Log_file_not_found string
  | Log_loaded nat string
  | Log_decode_error string
  | Log_load_error string exn
  | Log_saved nat string
  | Log_save_error string
  | Log_not_a_book
  | Log_duplicate json
  | Log_added json
  | Log_no_title_match string
  | Log_no_isbn_match string
  | Log_issued json string
  | Log_already_issued string
  | Log_issue_nonexistent string
  | Log_returned json string
  | Log_already_available string
  | Log_return_nonexistent string

text \<open>The lines written by \<open>print\<close>, one constructor for each call in the source.\<close>

datatype line =
    Line_inventory_empty
  | Line_inventory_header
  | Line_book book_text
  | Line_inventory_footer
  | Line_issue_header
  | Line_issued json string
  | Line_issue_failed json
  | Line_already_issued json string
  | Line_return_header
  | Line_returned json string
  | Line_return_failed json
  | Line_already_available json string
  | Line_no_book_found string

text \<open>
  The file system (what is found at each path, and what an attempt to write a document to
  a path comes to), the log and the console.
\<close>

record world =
  files :: "string \<Rightarrow> location"
  attempt :: "string \<Rightarrow> json \<Rightarrow> write_result"
  log :: "(level \<times> log_msg) list"
  stdout :: "line list"

definition logger :: "level \<Rightarrow> log_msg \<Rightarrow> world \<Rightarrow> world" where
  "logger l m w = w\<lparr>log := log w @ [(l, m)]\<rparr>"

definition print :: "line \<Rightarrow> world \<Rightarrow> world" where
  "print l w = w\<lparr>stdout := stdout w @ [l]\<rparr>"

section \<open>The class LibraryInventory\<close>

record inventory =
  file_path :: string
  books :: "book list"

text \<open>
  The iteration \<open>for book_data in data\<close>: over the elements of a list, the keys of a dict
  and the characters of a string; \<open>TypeError\<close> for a value that is not iterable. The
  characters of a string are strings themselves, and \<open>Book(**book_data)\<close> raises the same
  \<open>TypeError\<close> on each: the model lists the string byte by byte.
\<close>

fun iterate :: "json \<Rightarrow> exn + json list" where
  "iterate (JArr xs) = Inr xs"
| "iterate (JObj kw) = Inr (map (\<lambda>(k, v). JStr k) kw)"
| "iterate (JStr s) = Inr (map (\<lambda>c. JStr [c]) s)"
| "iterate _ = Inl TypeError"

text \<open>The comprehension \<open>[Book(**book_data) for book_data in data]\<close>: the first exception ends it.\<close>

fun Book_each :: "json list \<Rightarrow> exn + book list" where
  "Book_each [] = Inr []"
| "Book_each (d # ds) =
     (case Book_kwargs d of
        Inl e \<Rightarrow> Inl e
      | Inr b \<Rightarrow> (case Book_each ds of Inl e \<Rightarrow> Inl e | Inr bs \<Rightarrow> Inr (b # bs)))"

definition Book_all :: "json \<Rightarrow> exn + book list" where
  "Book_all data = (case iterate data of Inl e \<Rightarrow> Inl e | Inr ds \<Rightarrow> Book_each ds)"

text \<open>
  \<open>_load_books\<close>. The test \<open>self.file_path.exists()\<close> stands before the \<open>try\<close>: where it
  raises, the method raises. Everything after it is inside the \<open>try\<close>, whose handlers catch
  every exception.
\<close>

definition load_books :: "inventory \<Rightarrow> world \<Rightarrow> (exn + inventory) \<times> world" where
  "load_books self w =
     (case files w (file_path self) of
        Barred \<Rightarrow> (Inl OSError, w)
      | Missing \<Rightarrow> (Inr self, logger INFO (Log_file_not_found (file_path self)) w)
      | Holds Unreadable \<Rightarrow>
          (Inr (self\<lparr>books := []\<rparr>),
           logger ERROR (Log_load_error (file_path self) OSError) w)
      | Holds Undecodable \<Rightarrow>
          (Inr (self\<lparr>books := []\<rparr>), logger ERROR (Log_decode_error (file_path self)) w)
      | Holds (Decodes data) \<Rightarrow>
          (case Book_all data of
             Inl e \<Rightarrow>
               (Inr (self\<lparr>books := []\<rparr>), logger ERROR (Log_load_error (file_path self) e) w)
           | Inr bs \<Rightarrow>
               (Inr (self\<lparr>books := bs\<rparr>),
                logger INFO (Log_loaded (length bs) (file_path self)) w)))"

text \<open>\<open>LibraryInventory.__init__\<close>: the new object, or the exception that \<open>_load_books\<close> raises.\<close>

definition LibraryInventory :: "string \<Rightarrow> world \<Rightarrow> (exn + inventory) \<times> world" where
  "LibraryInventory path w = load_books \<lparr>file_path = path, books = []\<rparr> w"

text \<open>\<open>_save_books\<close>: every exception is caught and logged.\<close>

definition save_books :: "inventory \<Rightarrow> world \<Rightarrow> world" where
  "save_books self w =
     (case attempt w (file_path self) (JArr (map to_dict (books self))) of
        Written \<Rightarrow>
          logger INFO (Log_saved (length (books self)) (file_path self))
            (w\<lparr>files := (files w)
                 (file_path self := Holds (Decodes (JArr (map to_dict (books self)))))\<rparr>)
      | Refused \<Rightarrow> logger ERROR (Log_save_error (file_path self)) w
      | Torn \<Rightarrow>
          logger ERROR (Log_save_error (file_path self))
            (w\<lparr>files := (files w)(file_path self := Holds Undecodable)\<rparr>))"

text \<open>The argument of \<open>add_book\<close>: a \<open>Book\<close>, or an object of another class.\<close>

datatype pyobj = Book_obj book | Other_obj json

definition add_book :: "inventory \<Rightarrow> pyobj \<Rightarrow> world \<Rightarrow> bool \<times> inventory \<times> world" where
  "add_book self obj w =
     (case obj of
        Other_obj v \<Rightarrow> (False, self, logger ERROR Log_not_a_book w)
      | Book_obj b \<Rightarrow>
          if list_ex (\<lambda>x. py_eq (isbn x) (isbn b)) (books self)
          then (False, self, logger WARNING (Log_duplicate (isbn b)) w)
          else
            (let self' = self\<lparr>books := books self @ [b]\<rparr>;
                 w' = save_books self' w
             in (True, self', logger INFO (Log_added (title b)) w')))"

text \<open>
  The comprehension of \<open>search_by_title\<close>, \<open>title.lower() in book.title.lower()\<close> for each
  book in order; a title that is not a \<open>str\<close> raises.
\<close>

fun title_matches :: "unicode \<Rightarrow> string \<Rightarrow> book list \<Rightarrow> exn + book list" where
  "title_matches U q [] = Inr []"
| "title_matches U q (b # bs) =
     (case call_lower U (title b) of
        Inl e \<Rightarrow> Inl e
      | Inr t \<Rightarrow>
          (case title_matches U q bs of
             Inl e \<Rightarrow> Inl e
           | Inr ms \<Rightarrow> Inr (if str_in (lower U q) t then b # ms else ms)))"

definition search_by_title ::
  "unicode \<Rightarrow> inventory \<Rightarrow> string \<Rightarrow> world \<Rightarrow> (exn + book list) \<times> world" where
  "search_by_title U self q w =
     (case title_matches U q (books self) of
        Inl e \<Rightarrow> (Inl e, w)
      | Inr ms \<Rightarrow> (Inr ms, if ms = [] then logger INFO (Log_no_title_match q) w else w))"

text \<open>
  \<open>search_by_isbn\<close> returns the object itself, not a copy: the model returns its position
  in \<open>books\<close>, so that a caller's mutation of the object is a mutation of the inventory.
\<close>

fun first_index :: "('a \<Rightarrow> bool) \<Rightarrow> 'a list \<Rightarrow> nat option" where
  "first_index P [] = None"
| "first_index P (x # xs) =
     (if P x then Some 0 else map_option Suc (first_index P xs))"

definition search_by_isbn :: "inventory \<Rightarrow> string \<Rightarrow> world \<Rightarrow> nat option \<times> world" where
  "search_by_isbn self i w =
     (case first_index (\<lambda>b. py_eq (isbn b) (JStr i)) (books self) of
        Some n \<Rightarrow> (Some n, w)
      | None \<Rightarrow> (None, logger INFO (Log_no_isbn_match i) w))"

text \<open>
  What a Python function hands back to its caller, as far as the operations of the
  repository are concerned: \<open>None\<close>, a flag, or a sequence of records.
\<close>

datatype retval = Ret_none | Ret_bool bool | Ret_books "book list"

text \<open>The loop \<open>for book in self.books: print(book)\<close>; an exception leaves the loop.\<close>

fun print_books :: "unicode \<Rightarrow> book list \<Rightarrow> world \<Rightarrow> exn option \<times> world" where
  "print_books U [] w = (None, w)"
| "print_books U (b # bs) w =
     (case Book_str U b of
        Inl e \<Rightarrow> (Some e, w)
      | Inr t \<Rightarrow> print_books U bs (print (Line_book t) w))"

definition display_all :: "unicode \<Rightarrow> inventory \<Rightarrow> world \<Rightarrow> (exn + retval) \<times> world" where
  "display_all U self w =
     (if books self = [] then (Inr (Ret_bool False), print Line_inventory_empty w)
      else
        (case print_books U (books self) (print Line_inventory_header w) of
           (Some e, w') \<Rightarrow> (Inl e, w')
         | (None, w') \<Rightarrow> (Inr (Ret_bool True), print Line_inventory_footer w')))"

section \<open>The command line's handlers\<close>

text \<open>
  \<open>issue_book\<close> and \<open>return_book\<close> read the ISBN with \<open>get_valid_input\<close>; the argument \<open>i\<close>
  is the string that call returns. No path of either has a \<open>return\<close> statement: what they
  hand back is \<open>None\<close>, and the outcome is what they print and log.
\<close>

definition issue_book :: "inventory \<Rightarrow> string \<Rightarrow> world \<Rightarrow> retval \<times> inventory \<times> world" where
  "issue_book inventory i w =
     (case search_by_isbn inventory i (print Line_issue_header w) of
        (Some n, w1) \<Rightarrow>
          (let b = books inventory ! n in
           if is_available b then
             (case Book_issue b of
                (True, b') \<Rightarrow>
                  (let inventory' = inventory\<lparr>books := (books inventory)[n := b']\<rparr>;
                       w2 = save_books inventory' w1
                   in (Ret_none, inventory',
                       logger INFO (Log_issued (title b') i)
                         (print (Line_issued (title b') i) w2)))
              | (False, b') \<Rightarrow>
                  (Ret_none, inventory\<lparr>books := (books inventory)[n := b']\<rparr>,
                   print (Line_issue_failed (title b')) w1))
           else (Ret_none, inventory,
                 logger WARNING (Log_already_issued i)
                   (print (Line_already_issued (title b) i) w1)))
      | (None, w1) \<Rightarrow>
          (Ret_none, inventory,
           logger WARNING (Log_issue_nonexistent i) (print (Line_no_book_found i) w1)))"

definition return_book :: "inventory \<Rightarrow> string \<Rightarrow> world \<Rightarrow> retval \<times> inventory \<times> world" where
  "return_book inventory i w =
     (case search_by_isbn inventory i (print Line_return_header w) of
        (Some n, w1) \<Rightarrow>
          (let b = books inventory ! n in
           if \<not> is_available b then
             (case Book_return_book b of
                (True, b') \<Rightarrow>
                  (let inventory' = inventory\<lparr>books := (books inventory)[n := b']\<rparr>;
                       w2 = save_books inventory' w1
                   in (Ret_none, inventory',
                       logger INFO (Log_returned (title b') i)
                         (print (Line_returned (title b') i) w2)))
              | (False, b') \<Rightarrow>
                  (Ret_none, inventory\<lparr>books := (books inventory)[n := b']\<rparr>,
                   print (Line_return_failed (title b')) w1))
           else (Ret_none, inventory,
                 logger WARNING (Log_already_available i)
                   (print (Line_already_available (title b) i) w1)))
      | (None, w1) \<Rightarrow>
          (Ret_none, inventory,
           logger WARNING (Log_return_nonexistent i) (print (Line_no_book_found i) w1)))"

section \<open>Sequences of calls\<close>

text \<open>The two transitions of a record, and a run of them on one record, flag by flag.\<close>

datatype transition = Issue | Return

fun call_transition :: "transition \<Rightarrow> book \<Rightarrow> bool \<times> book" where
  "call_transition Issue b = Book_issue b"
| "call_transition Return b = Book_return_book b"

fun run_transitions :: "transition list \<Rightarrow> book \<Rightarrow> bool list \<times> book" where
  "run_transitions [] b = ([], b)"
| "run_transitions (t # ts) b =
     (case call_transition t b of
        (r, b') \<Rightarrow> (case run_transitions ts b' of (rs, b'') \<Rightarrow> (r # rs, b'')))"

text \<open>The strictly alternating run of \<open>n\<close> calls that starts with \<open>t\<close>.\<close>

fun alternating :: "transition \<Rightarrow> nat \<Rightarrow> transition list" where
  "alternating t 0 = []"
| "alternating Issue (Suc n) = Issue # alternating Return n"
| "alternating Return (Suc n) = Return # alternating Issue n"


text \<open>
  What happens to a repository between its construction and the end of the process: calls
  of \<open>add_book\<close>, \<open>issue_book\<close> and \<open>return_book\<close>, a new run of the program on the same
  storage location, and a change of what the attempts to write come to. A new run whose
  constructor raises leaves no repository: the session has no state from then on.
\<close>

datatype command =
    Add_book pyobj
  | Issue_book string
  | Return_book string
  | Restart
  | Permissions "string \<Rightarrow> json \<Rightarrow> write_result"

definition start :: "string \<Rightarrow> world \<Rightarrow> (inventory \<times> world) option" where
  "start p w =
     (case LibraryInventory p w of
        (Inr self, w') \<Rightarrow> Some (self, w')
      | (Inl e, w') \<Rightarrow> None)"

fun step :: "command \<Rightarrow> inventory \<times> world \<Rightarrow> (inventory \<times> world) option" where
  "step (Add_book obj) (self, w) = Some (snd (add_book self obj w))"
| "step (Issue_book i) (self, w) = Some (snd (issue_book self i w))"
| "step (Return_book i) (self, w) = Some (snd (return_book self i w))"
| "step Restart (self, w) = start (file_path self) w"
| "step (Permissions f) (self, w) = Some (self, w\<lparr>attempt := f\<rparr>)"

fun run :: "command list \<Rightarrow> inventory \<times> world \<Rightarrow> (inventory \<times> world) option" where
  "run [] s = Some s"
| "run (c # cs) s = (case step c s of None \<Rightarrow> None | Some s' \<Rightarrow> run cs s')"

text \<open>A session: the construction on a storage location, then the commands.\<close>

definition session :: "string \<Rightarrow> world \<Rightarrow> command list \<Rightarrow> (inventory \<times> world) option" where
  "session p w cs = (case start p w of None \<Rightarrow> None | Some s \<Rightarrow> run cs s)"

section \<open>The vocabulary of the specification\<close>

text \<open>A field that holds a string, as the docstring of \<open>Book.__init__\<close> types all four.\<close>

definition is_str :: "json \<Rightarrow> bool" where
  "is_str v = (case v of JStr s \<Rightarrow> True | _ \<Rightarrow> False)"

text \<open>
  The repository's invariant, at most one record per isbn: no record's isbn equals (by
  Python's \<open>==\<close>) the isbn of a record after it.
\<close>

fun unique_isbns :: "book list \<Rightarrow> bool" where
  "unique_isbns [] = True"
| "unique_isbns (b # bs) = (\<not> list_ex (\<lambda>x. py_eq (isbn b) (isbn x)) bs \<and> unique_isbns bs)"








text \<open>The write that \<open>_save_books\<close> attempts for an inventory goes through.\<close>

definition goes_through :: "world \<Rightarrow> inventory \<Rightarrow> bool" where
  "goes_through w self =
     (attempt w (file_path self) (JArr (map to_dict (books self))) = Written)"

text \<open>
  The validation the specification asks of a stored entry: all four fields are present and
  the status is one of the two allowed strings.
\<close>

definition spec_valid_entry :: "json \<Rightarrow> bool" where
  "spec_valid_entry e =
     (case e of
        JObj kw \<Rightarrow>
          list_all (\<lambda>k. map_of kw k \<noteq> None) Book_parameters \<and>
          (map_of kw ''status'' = Some (JStr ''available'') \<or>
           map_of kw ''status'' = Some (JStr ''issued''))
      | _ \<Rightarrow> False)"

text \<open>
  What the load asks of an entry: an object whose keys are among the four and that has a
  title, an author and an isbn. Such an entry loads as the record with these three values
  and with the entry's status, or \<open>"available"\<close> when the entry has none.
\<close>

definition accepted_entry :: "json \<Rightarrow> bool" where
  "accepted_entry e =
     (case e of
        JObj kw \<Rightarrow>
          list_all (\<lambda>k. k \<in> set Book_parameters) (map fst kw) \<and>
          map_of kw ''title'' \<noteq> None \<and> map_of kw ''author'' \<noteq> None \<and>
          map_of kw ''isbn'' \<noteq> None
      | _ \<Rightarrow> False)"

definition loads_as :: "json \<Rightarrow> book \<Rightarrow> bool" where
  "loads_as e b =
     (case e of
        JObj kw \<Rightarrow>
          map_of kw ''title'' = Some (title b) \<and>
          map_of kw ''author'' = Some (author b) \<and>
          map_of kw ''isbn'' = Some (isbn b) \<and>
          status b = (case map_of kw ''status'' of None \<Rightarrow> JStr ''available'' | Some s \<Rightarrow> s)
      | _ \<Rightarrow> False)"

text \<open>The line \<open>print(book)\<close> writes for a record whose status is a string.\<close>

definition status_text :: "json \<Rightarrow> string" where
  "status_text v = (case v of JStr s \<Rightarrow> s | _ \<Rightarrow> [])"

definition book_line :: "unicode \<Rightarrow> book \<Rightarrow> line" where
  "book_line U b =
     Line_book (Book_text (title b) (author b) (isbn b) (capitalize U (status_text (status b))))"

text \<open>
  A title contains the query as a case-insensitive substring: some contiguous stretch of
  the title equals the query when the case of the letters is ignored. For ASCII text, two
  strings are equal in this sense when they agree after A to Z are mapped to a to z. A
  title that contains the query as it stands contains it in this sense, whatever the
  alphabet.
\<close>

definition contains_ci :: "string \<Rightarrow> string \<Rightarrow> bool" where
  "contains_ci q t = list_ex (\<lambda>s. map lower_char s = map lower_char q) (sublists t)"

definition title_contains :: "string \<Rightarrow> book \<Rightarrow> bool" where
  "title_contains q b = (case title b of JStr t \<Rightarrow> contains_ci q t | _ \<Rightarrow> False)"

definition ascii_title :: "book \<Rightarrow> bool" where
  "ascii_title b = (case title b of JStr t \<Rightarrow> isascii t | _ \<Rightarrow> False)"

section \<open>Example values\<close>

text \<open>
  A directory without files in which every write goes through, a silent log and console.
\<close>

definition world0 :: world where
  "world0 = \<lparr>files = (\<lambda>p. Missing), attempt = (\<lambda>p d. Written), log = [], stdout = []\<rparr>"

text \<open>The same directory with \<open>books.json\<close> holding a text that decodes to \<open>v\<close>.\<close>

definition stored :: "json \<Rightarrow> world" where
  "stored v = world0\<lparr>files := (files world0)(''books.json'' := Holds (Decodes v))\<rparr>"

definition corrupt :: world where
  "corrupt = world0\<lparr>files := (files world0)(''books.json'' := Holds Undecodable)\<rparr>"


text \<open>
  A name of 300 characters, \<open>'a' * 300\<close>: longer than the 255 bytes a file name may have, so
  that \<open>Path.exists()\<close> raises \<open>OSError\<close> (\<open>ENAMETOOLONG\<close>) for it.
\<close>

definition long_name :: string where
  "long_name = replicate 300 CHR ''a''"

definition barred :: world where
  "barred = world0\<lparr>files := (files world0)(long_name := Barred)\<rparr>"

text \<open>
  Two Greek strings in UTF-8, a capital sigma and a capital alpha followed by a capital
  sigma, and the values of \<open>str.lower\<close> at them: a small sigma, and a small alpha followed
  by a final sigma. The tables below give these two values; no other value of them is used.
\<close>

definition capital_sigma :: string where
  "capital_sigma = [CHR 0xCE, CHR 0xA3]"

definition alpha_sigma :: string where
  "alpha_sigma = [CHR 0xCE, CHR 0x91, CHR 0xCE, CHR 0xA3]"

definition small_sigma :: string where
  "small_sigma = [CHR 0xCF, CHR 0x83]"

definition alpha_final_sigma :: string where
  "alpha_final_sigma = [CHR 0xCE, CHR 0xB1, CHR 0xCF, CHR 0x82]"

definition tables :: unicode where
  "tables =
     \<lparr>str_lower = (\<lambda>s. if s = alpha_sigma then alpha_final_sigma
                        else if s = capital_sigma then small_sigma else s),
      str_capitalize = (\<lambda>s. s)\<rparr>"

definition dune :: book where
  "dune = Book_init (JStr ''Dune'') (JStr ''Frank Herbert'') (JStr ''111'') None"

definition emma :: book where
  "emma = Book_init (JStr ''Emma'') (JStr ''Jane Austen'') (JStr ''222'') (Some (JStr ''issued''))"

definition greek :: book where
  "greek = Book_init (JStr alpha_sigma) (JStr ''Anonymous'') (JStr ''333'') None"

definition shelf :: inventory where
  "shelf = \<lparr>file_path = ''books.json'', books = [dune, emma]\<rparr>"

definition single :: inventory where
  "single = \<lparr>file_path = ''books.json'', books = [dune]\<rparr>"

definition greek_shelf :: inventory where
  "greek_shelf = \<lparr>file_path = ''books.json'', books = [greek]\<rparr>"

text \<open>Stored entries: one without a status, one with a status outside the enum, one without an isbn.\<close>

definition no_status :: json where
  "no_status =
     JObj [(''title'', JStr ''Dune''), (''author'', JStr ''Frank Herbert''), (''isbn'', JStr ''111'')]"

definition lost_status :: json where
  "lost_status =
     JObj [(''title'', JStr ''Emma''), (''author'', JStr ''Jane Austen''), (''isbn'', JStr ''222''),
           (''status'', JStr ''lost'')]"

definition no_isbn :: json where
  "no_isbn = JObj [(''title'', JStr ''Ulysses''), (''author'', JStr ''James Joyce'')]"

section \<open>Basic facts\<close>

subsection \<open>Comparison with a string\<close>

lemma py_eq_JStr [simp]: "py_eq x (JStr s) = (x = JStr s)"
  by (cases x) simp_all

lemma py_eq_JStr_left [simp]: "py_eq (JStr s) x = (x = JStr s)"
  by (cases x) auto

subsection \<open>The logger and the console leave the files alone\<close>

lemma files_logger [simp]: "files (logger l m w) = files w"
  by (simp add: logger_def)

lemma attempt_logger [simp]: "attempt (logger l m w) = attempt w"
  by (simp add: logger_def)

lemma stdout_logger [simp]: "stdout (logger l m w) = stdout w"
  by (simp add: logger_def)

lemma log_logger [simp]: "log (logger l m w) = log w @ [(l, m)]"
  by (simp add: logger_def)

lemma files_print [simp]: "files (print l w) = files w"
  by (simp add: print_def)

lemma attempt_print [simp]: "attempt (print l w) = attempt w"
  by (simp add: print_def)

lemma stdout_print [simp]: "stdout (print l w) = stdout w @ [l]"
  by (simp add: print_def)

lemma log_print [simp]: "log (print l w) = log w"
  by (simp add: print_def)

subsection \<open>What a save changes\<close>

lemma attempt_save_books [simp]: "attempt (save_books self w) = attempt w"
  by (simp add: save_books_def split: write_result.splits)

lemma stdout_save_books [simp]: "stdout (save_books self w) = stdout w"
  by (simp add: save_books_def split: write_result.splits)

lemma files_save_books:
  "files (save_books self w) =
     (case attempt w (file_path self) (JArr (map to_dict (books self))) of
        Written \<Rightarrow>
          (files w)(file_path self := Holds (Decodes (JArr (map to_dict (books self)))))
      | Refused \<Rightarrow> files w
      | Torn \<Rightarrow> (files w)(file_path self := Holds Undecodable))"
  by (simp add: save_books_def split: write_result.splits)

lemma goes_through_print [simp]: "goes_through (print l w) self = goes_through w self"
  by (simp add: goes_through_def)

lemma goes_through_logger [simp]: "goes_through (logger l m w) self = goes_through w self"
  by (simp add: goes_through_def)



section \<open>The transitions of a record\<close>

lemma alternating_succeeds:
  "(status b = JStr ''available'' \<longrightarrow>
      fst (run_transitions (alternating Issue n) b) = replicate n True) \<and>
   (status b = JStr ''issued'' \<longrightarrow>
      fst (run_transitions (alternating Return n) b) = replicate n True)"
proof (induction n arbitrary: b)
  case 0
  show ?case by simp
next
  case (Suc n)
  have i: "fst (run_transitions (alternating Return n) (b\<lparr>status := JStr ''issued''\<rparr>))
             = replicate n True"
    using Suc.IH [of "b\<lparr>status := JStr ''issued''\<rparr>"] by simp
  have r: "fst (run_transitions (alternating Issue n) (b\<lparr>status := JStr ''available''\<rparr>))
             = replicate n True"
    using Suc.IH [of "b\<lparr>status := JStr ''available''\<rparr>"] by simp
  show ?case
    using i r by (auto simp add: Book_issue_def Book_return_book_def split: prod.splits)
qed

text \<open>
  Claim C5. For every record, \<open>issue\<close> returns \<open>True\<close> exactly when the status is
  \<open>"available"\<close>, and then the status is \<open>"issued"\<close>; otherwise it returns \<open>False\<close> and the
  record is as before. \<open>return_book\<close> returns \<open>True\<close> exactly when the status is \<open>"issued"\<close>,
  and then the status is \<open>"available"\<close>; otherwise it returns \<open>False\<close> and the record is as
  before. So a second \<open>issue\<close> right after an \<open>issue\<close> fails, a second \<open>return_book\<close> right
  after a \<open>return_book\<close> fails, and every call of a strictly alternating run succeeds, when
  the run starts with \<open>issue\<close> on an available record or with \<open>return_book\<close> on an issued one.
\<close>

theorem Book_transitions:
  "fst (Book_issue b) = (status b = JStr ''available'') \<and>
   snd (Book_issue b) =
     (if status b = JStr ''available'' then b\<lparr>status := JStr ''issued''\<rparr> else b) \<and>
   fst (Book_return_book b) = (status b = JStr ''issued'') \<and>
   snd (Book_return_book b) =
     (if status b = JStr ''issued'' then b\<lparr>status := JStr ''available''\<rparr> else b) \<and>
   \<not> fst (Book_issue (snd (Book_issue b))) \<and>
   \<not> fst (Book_return_book (snd (Book_return_book b))) \<and>
   (status b = JStr ''available'' \<longrightarrow>
      fst (run_transitions (alternating Issue n) b) = replicate n True) \<and>
   (status b = JStr ''issued'' \<longrightarrow>
      fst (run_transitions (alternating Return n) b) = replicate n True)"
  using alternating_succeeds [of b n]
  by (simp add: Book_issue_def Book_return_book_def)

theorem Book_transitions_witness:
  "status dune = JStr ''available'' \<and>
   fst (Book_issue dune) \<and>
   status (snd (Book_issue dune)) = JStr ''issued'' \<and>
   \<not> fst (Book_return_book dune) \<and>
   snd (Book_return_book dune) = dune \<and>
   \<not> fst (Book_issue (snd (Book_issue dune))) \<and>
   fst (run_transitions (alternating Issue 4) dune) = [True, True, True, True]"
proof -
  have s: "status dune = JStr ''available''"
    by (simp add: dune_def Book_init_def)
  have r: "replicate 4 True = [True, True, True, True]"
    by (simp add: numeral_eq_Suc)
  show ?thesis
    using s r Book_transitions [of dune 4]
    by (simp add: Book_issue_def Book_return_book_def)
qed

section \<open>Saving and loading\<close>

text \<open>
  Claim C9. Two calls of \<open>_save_books\<close> in a row, with no mutation between them, leave the
  storage location as one call does: each writes the serialization of the same in-memory
  sequence, so where the write goes through the file holds that serialization after the
  first call and after the second.
\<close>

theorem save_books_twice:
  "files (save_books self (save_books self w)) = files (save_books self w) \<and>
   (goes_through w self \<longrightarrow>
      files (save_books self w) (file_path self)
        = Holds (Decodes (JArr (map to_dict (books self)))) \<and>
      files (save_books self (save_books self w)) (file_path self)
        = Holds (Decodes (JArr (map to_dict (books self)))))"
  by (simp add: files_save_books goes_through_def split: write_result.splits)

theorem save_books_twice_witness:
  "goes_through world0 shelf \<and>
   files (save_books shelf world0) ''books.json''
     = Holds (Decodes (JArr [to_dict dune, to_dict emma])) \<and>
   files (save_books shelf (save_books shelf world0)) ''books.json''
     = Holds (Decodes (JArr [to_dict dune, to_dict emma]))"
proof -
  have g: "goes_through world0 shelf"
    by (simp add: goes_through_def world0_def)
  show ?thesis
    using g save_books_twice [of shelf world0] by (simp add: shelf_def)
qed

lemma Book_kwargs_to_dict: "Book_kwargs (to_dict b) = Inr b"
  by (simp add: to_dict_def Book_parameters_def Book_init_def)

lemma Book_each_to_dict: "Book_each (map to_dict bs) = Inr bs"
  by (induction bs) (simp_all add: Book_kwargs_to_dict)

text \<open>
  Claim C6. For every sequence of records, of any length: when the sequence is saved to a
  storage location (and the write goes through) and a repository is then constructed on
  that location, the construction completes and its records are the saved ones, equal in
  all four fields and in the original order.
\<close>

theorem save_then_load:
  "goes_through w self \<Longrightarrow>
   fst (LibraryInventory (file_path self) (save_books self w)) =
     Inr \<lparr>file_path = file_path self, books = books self\<rparr>"
  by (simp add: LibraryInventory_def load_books_def files_save_books goes_through_def
      Book_all_def Book_each_to_dict)

theorem save_then_load_witness:
  "goes_through world0 shelf \<and>
   fst (LibraryInventory (file_path shelf) (save_books shelf world0)) =
     Inr \<lparr>file_path = ''books.json'', books = [dune, emma]\<rparr>"
proof -
  have h: "goes_through world0 shelf"
    by (simp add: goes_through_def world0_def)
  show ?thesis
    using h save_then_load [OF h] by (simp add: shelf_def)
qed

subsection \<open>The constructor\<close>

text \<open>
  Where \<open>Path.exists()\<close> answers, the construction completes, and its only effect outside
  the new object is one line in the log: no file is deleted, repaired or otherwise changed.
  On a storage location without a file the in-memory sequence is empty. On a location
  whose contents \<open>json.load\<close> cannot decode, or decodes to a value from which the records
  cannot be built, the in-memory sequence is empty and the condition is logged (at level
  \<open>ERROR\<close>).
\<close>

lemma construction_completes:
  "(files w p = Missing \<longrightarrow>
      LibraryInventory p w
        = (Inr \<lparr>file_path = p, books = []\<rparr>, logger INFO (Log_file_not_found p) w)) \<and>
   (files w p = Holds Undecodable \<longrightarrow>
      LibraryInventory p w
        = (Inr \<lparr>file_path = p, books = []\<rparr>, logger ERROR (Log_decode_error p) w)) \<and>
   (files w p = Holds Unreadable \<longrightarrow>
      LibraryInventory p w
        = (Inr \<lparr>file_path = p, books = []\<rparr>, logger ERROR (Log_load_error p OSError) w)) \<and>
   (files w p = Holds (Decodes data) \<and> Book_all data = Inl e \<longrightarrow>
      LibraryInventory p w
        = (Inr \<lparr>file_path = p, books = []\<rparr>, logger ERROR (Log_load_error p e) w)) \<and>
   (files w p \<noteq> Barred \<longrightarrow>
      (\<exists>bs l m. LibraryInventory p w = (Inr \<lparr>file_path = p, books = bs\<rparr>, logger l m w))) \<and>
   files (snd (LibraryInventory p w)) = files w"
proof -
  have "files w p \<noteq> Barred \<longrightarrow>
      (\<exists>bs l m. LibraryInventory p w = (Inr \<lparr>file_path = p, books = bs\<rparr>, logger l m w))"
    by (auto simp: LibraryInventory_def load_books_def
        split: location.splits file_content.splits sum.splits)
  then show ?thesis
    by (simp add: LibraryInventory_def load_books_def
        split: location.splits file_content.splits sum.splits)
qed

lemma raises_iff_barred:
  "(fst (LibraryInventory p w) = Inl OSError) = (files w p = Barred)"
  by (simp add: LibraryInventory_def load_books_def
      split: location.splits file_content.splits sum.splits)

text \<open>
  Claim C7 asks that constructing a repository never fails, and that on a storage location
  that does not exist the construction completes with an empty in-memory sequence. The
  code calls \<open>self.file_path.exists()\<close> before its \<open>try\<close>: on a location that does not exist
  and whose name is longer than a file name may be, \<open>exists()\<close> raises \<open>OSError\<close>, and the
  constructor raises with it. No repository is constructed and nothing is logged.
\<close>

theorem construction_raises:
  "files barred long_name = Barred \<and>
   LibraryInventory long_name barred = (Inl OSError, barred)"
  by (simp add: barred_def LibraryInventory_def load_books_def)

subsection \<open>Entries the load accepts and entries it rejects\<close>

lemma Book_kwargs_accepted:
  "accepted_entry e \<Longrightarrow> \<exists>b. Book_kwargs e = Inr b \<and> loads_as e b"
  by (cases e)
     (auto simp: accepted_entry_def loads_as_def Book_init_def list_all_iff list_ex_iff)

lemma Book_kwargs_rejected:
  "\<not> accepted_entry e \<Longrightarrow> Book_kwargs e = Inl TypeError"
  by (cases e)
     (auto simp: accepted_entry_def list_all_iff list_ex_iff split: option.splits)

lemma Book_each_accepted:
  "list_all accepted_entry es \<Longrightarrow> \<exists>bs. Book_each es = Inr bs \<and> list_all2 loads_as es bs"
proof (induction es)
  case Nil
  show ?case by simp
next
  case (Cons e es)
  from Cons.prems obtain b where b: "Book_kwargs e = Inr b" "loads_as e b"
    using Book_kwargs_accepted by auto
  from Cons obtain bs where bs: "Book_each es = Inr bs" "list_all2 loads_as es bs"
    by auto
  from b bs show ?case by simp
qed

lemma Book_each_rejected:
  "\<not> list_all accepted_entry es \<Longrightarrow> Book_each es = Inl TypeError"
proof (induction es)
  case Nil
  then show ?case by simp
next
  case (Cons e es)
  show ?case
  proof (cases "accepted_entry e")
    case True
    then obtain b where "Book_kwargs e = Inr b"
      using Book_kwargs_accepted by blast
    moreover from True Cons have "Book_each es = Inl TypeError" by simp
    ultimately show ?thesis by simp
  next
    case False
    then show ?thesis by (simp add: Book_kwargs_rejected)
  qed
qed

text \<open>
  Claim C3, as amended. For every storage file that decodes to an array: if any entry is
  not an object, has a key other than the four, or lacks a title, an author or an isbn,
  the whole load fails, the failure is logged and the repository starts with an empty
  sequence, whatever the other entries are; otherwise the load yields one record for each
  entry, in the order of the file, where an entry without a status is loaded with the
  status \<open>"available"\<close> and a status of any value is loaded as it stands.
\<close>

theorem load_all_or_nothing:
  assumes "files w p = Holds (Decodes (JArr es))"
  shows "(list_all accepted_entry es \<longrightarrow>
            (case fst (LibraryInventory p w) of
               Inr self \<Rightarrow> file_path self = p \<and> list_all2 loads_as es (books self)
             | Inl e \<Rightarrow> False) \<and>
            snd (LibraryInventory p w) = logger INFO (Log_loaded (length es) p) w) \<and>
         (\<not> list_all accepted_entry es \<longrightarrow>
            LibraryInventory p w =
              (Inr \<lparr>file_path = p, books = []\<rparr>, logger ERROR (Log_load_error p TypeError) w))"
proof (cases "list_all accepted_entry es")
  case True
  then obtain bs where bs: "Book_each es = Inr bs" "list_all2 loads_as es bs"
    using Book_each_accepted by blast
  from bs(2) have "length bs = length es"
    by (simp add: list_all2_lengthD)
  with True bs assms show ?thesis
    by (simp add: LibraryInventory_def load_books_def Book_all_def)
next
  case False
  with assms show ?thesis
    by (simp add: LibraryInventory_def load_books_def Book_all_def Book_each_rejected)
qed

theorem load_all_or_nothing_witness:
  "files (stored (JArr [no_status, no_isbn])) ''books.json''
     = Holds (Decodes (JArr [no_status, no_isbn])) \<and>
   \<not> list_all accepted_entry [no_status, no_isbn] \<and>
   fst (LibraryInventory ''books.json'' (stored (JArr [no_status, no_isbn])))
     = Inr \<lparr>file_path = ''books.json'', books = []\<rparr> \<and>
   files (stored (JArr [no_status, lost_status])) ''books.json''
     = Holds (Decodes (JArr [no_status, lost_status])) \<and>
   list_all accepted_entry [no_status, lost_status] \<and>
   (case fst (LibraryInventory ''books.json'' (stored (JArr [no_status, lost_status]))) of
      Inr self \<Rightarrow>
        file_path self = ''books.json'' \<and>
        list_all2 loads_as [no_status, lost_status] (books self)
    | Inl e \<Rightarrow> False)"
proof -
  have f1: "files (stored (JArr [no_status, no_isbn])) ''books.json''
              = Holds (Decodes (JArr [no_status, no_isbn]))"
    by (simp add: stored_def)
  have f2: "files (stored (JArr [no_status, lost_status])) ''books.json''
              = Holds (Decodes (JArr [no_status, lost_status]))"
    by (simp add: stored_def)
  have a1: "\<not> list_all accepted_entry [no_status, no_isbn]"
    by (simp add: accepted_entry_def no_isbn_def)
  have a2: "list_all accepted_entry [no_status, lost_status]"
    by (simp add: accepted_entry_def no_status_def lost_status_def Book_parameters_def)
  show ?thesis
    using f1 f2 a1 a2 load_all_or_nothing [OF f1] load_all_or_nothing [OF f2]
    by simp
qed

text \<open>
  The claim as the specification states it fails: a file whose first entry has no status
  and whose second entry has the status \<open>"lost"\<close> violates the specification's validation
  in both entries, and the load yields both records.
\<close>

theorem load_all_or_nothing_counterexample:
  "\<not> spec_valid_entry no_status \<and> \<not> spec_valid_entry lost_status \<and>
   fst (LibraryInventory ''books.json'' (stored (JArr [no_status, lost_status])))
     = Inr \<lparr>file_path = ''books.json'',
            books =
              [\<lparr>title = JStr ''Dune'', author = JStr ''Frank Herbert'', isbn = JStr ''111'',
                status = JStr ''available''\<rparr>,
               \<lparr>title = JStr ''Emma'', author = JStr ''Jane Austen'', isbn = JStr ''222'',
                status = JStr ''lost''\<rparr>]\<rparr>"
  by (simp add: spec_valid_entry_def no_status_def lost_status_def Book_parameters_def
      LibraryInventory_def load_books_def stored_def world0_def Book_all_def Book_init_def)

section \<open>Listing and searching\<close>

lemma print_books_lines:
  "list_all (\<lambda>b. is_str (status b)) bs \<Longrightarrow>
   print_books U bs w = (None, w\<lparr>stdout := stdout w @ map (book_line U) bs\<rparr>)"
proof (induction bs arbitrary: w)
  case Nil
  show ?case by simp
next
  case (Cons b bs)
  from Cons.prems obtain s where s: "status b = JStr s"
    by (auto simp: is_str_def split: json.splits)
  from Cons have "print_books U bs (print (book_line U b) w)
      = (None, (print (book_line U b) w)
                 \<lparr>stdout := stdout (print (book_line U b) w) @ map (book_line U) bs\<rparr>)"
    by simp
  with s show ?case
    by (simp add: Book_str_def book_line_def status_text_def print_def)
qed

text \<open>
  Claim C4, as amended. For every repository state in which every status is a string,
  \<open>display_all\<close> returns a flag and prints the listing: on a repository with records it
  prints a header, one line for each record in the current order and a footer, and returns
  \<open>True\<close>; on a repository without records it prints the notice that the inventory is
  empty and returns \<open>False\<close>. It changes neither the files nor the log.
\<close>

theorem display_all_prints:
  assumes "list_all (\<lambda>b. is_str (status b)) (books self)"
  shows "display_all U self w =
           (Inr (Ret_bool (books self \<noteq> [])),
            w\<lparr>stdout := stdout w @
                 (if books self = [] then [Line_inventory_empty]
                  else [Line_inventory_header] @ map (book_line U) (books self) @
                       [Line_inventory_footer])\<rparr>)"
  using print_books_lines [OF assms, of U "print Line_inventory_header w"]
  by (simp add: display_all_def print_def)

theorem display_all_prints_witness:
  "list_all (\<lambda>b. is_str (status b)) (books shelf) \<and>
   fst (display_all tables shelf world0) = Inr (Ret_bool True) \<and>
   stdout (snd (display_all tables shelf world0))
     = [Line_inventory_header,
        Line_book (Book_text (JStr ''Dune'') (JStr ''Frank Herbert'') (JStr ''111'') ''Available''),
        Line_book (Book_text (JStr ''Emma'') (JStr ''Jane Austen'') (JStr ''222'') ''Issued''),
        Line_inventory_footer]"
proof -
  have h: "list_all (\<lambda>b. is_str (status b)) (books shelf)"
    by (simp add: shelf_def dune_def emma_def Book_init_def is_str_def)
  have l: "map (book_line tables) (books shelf)
      = [Line_book (Book_text (JStr ''Dune'') (JStr ''Frank Herbert'') (JStr ''111'') ''Available''),
         Line_book (Book_text (JStr ''Emma'') (JStr ''Jane Austen'') (JStr ''222'') ''Issued'')]"
    by (simp add: shelf_def book_line_def status_text_def dune_def emma_def Book_init_def
        capitalize_def isascii_def lower_char_def upper_char_def ascii_uppercase_def
        ascii_lowercase_def)
  have n: "books shelf \<noteq> []"
    by (simp add: shelf_def)
  show ?thesis
    using h l n display_all_prints [OF h, of tables world0]
    by (simp add: world0_def)
qed

text \<open>
  The claim as the specification states it fails: what \<open>display_all\<close> returns is a flag,
  \<open>False\<close> on the empty repository and \<open>True\<close> on a repository with one record, and in
  neither case the sequence of records.
\<close>

theorem display_all_prints_counterexample:
  "fst (display_all tables \<lparr>file_path = ''books.json'', books = []\<rparr> world0)
     = Inr (Ret_bool False) \<and>
   fst (display_all tables \<lparr>file_path = ''books.json'', books = []\<rparr> world0)
     \<noteq> Inr (Ret_books (books \<lparr>file_path = ''books.json'', books = []\<rparr>)) \<and>
   fst (display_all tables \<lparr>file_path = ''books.json'', books = [dune]\<rparr> world0)
     = Inr (Ret_bool True) \<and>
   fst (display_all tables \<lparr>file_path = ''books.json'', books = [dune]\<rparr> world0)
     \<noteq> Inr (Ret_books (books \<lparr>file_path = ''books.json'', books = [dune]\<rparr>))"
  by (simp add: display_all_def dune_def Book_init_def Book_str_def)

subsection \<open>The substring test\<close>

lemma startswith_prefix: "startswith s p = prefix p s"
  by (induction s p rule: startswith.induct) auto

lemma str_in_sublist: "str_in n h = sublist n h"
  by (induction h) (simp_all add: startswith_prefix sublist_Cons_right)

lemma sublist_map_left: "sublist s t \<Longrightarrow> sublist (map f s) (map f t)"
  unfolding sublist_def by (metis map_append)

lemma contains_ci_lower: "contains_ci q t = str_in (map lower_char q) (map lower_char t)"
proof
  assume "contains_ci q t"
  then obtain s where s: "sublist s t" "map lower_char s = map lower_char q"
    by (auto simp: contains_ci_def list_ex_iff)
  from s(1) have "sublist (map lower_char s) (map lower_char t)"
    by (rule sublist_map_left)
  with s(2) show "str_in (map lower_char q) (map lower_char t)"
    by (simp add: str_in_sublist)
next
  assume "str_in (map lower_char q) (map lower_char t)"
  then have "sublist (map lower_char q) (map lower_char t)"
    by (simp add: str_in_sublist)
  then obtain s where "sublist s t" "map lower_char q = map lower_char s"
    using sublist_map_rightE by blast
  then show "contains_ci q t"
    by (auto simp: contains_ci_def list_ex_iff)
qed

lemma title_matches_filter:
  "isascii q \<Longrightarrow> list_all ascii_title bs \<Longrightarrow>
   title_matches U q bs = Inr (filter (title_contains q) bs)"
proof (induction bs)
  case Nil
  show ?case by simp
next
  case (Cons b bs)
  from Cons.prems obtain t where t: "title b = JStr t" "isascii t"
    by (auto simp: ascii_title_def split: json.splits)
  from Cons have "title_matches U q bs = Inr (filter (title_contains q) bs)"
    by simp
  moreover from t Cons.prems(1)
  have "title_contains q b = str_in (lower U q) (lower U t)"
    by (simp add: title_contains_def contains_ci_lower lower_def)
  ultimately show ?case
    using t by simp
qed

text \<open>
  On ASCII text the search is the case-insensitive substring match: for every repository
  state whose titles are ASCII strings and every ASCII query, \<open>search_by_title\<close> returns
  exactly the records whose title contains the query as a case-insensitive substring, in
  the repository's current order, whatever the interpreter's tables are. It leaves the
  files and the console as they were and writes one line to the log when nothing matches.
\<close>

lemma search_by_title_ascii:
  assumes "isascii q" "list_all ascii_title (books self)"
  shows "fst (search_by_title U self q w) = Inr (filter (title_contains q) (books self)) \<and>
         files (snd (search_by_title U self q w)) = files w \<and>
         attempt (snd (search_by_title U self q w)) = attempt w \<and>
         stdout (snd (search_by_title U self q w)) = stdout w \<and>
         log (snd (search_by_title U self q w)) =
           log w @ (if filter (title_contains q) (books self) = []
                    then [(INFO, Log_no_title_match q)] else [])"
  using title_matches_filter [OF assms, of U]
  by (simp add: search_by_title_def)

lemma search_by_title_ascii_example:
  "fst (search_by_title tables shelf ''dUn'' world0) = Inr [dune] \<and>
   filter (title_contains ''dUn'') (books shelf) = [dune]"
  by (simp add: search_by_title_def shelf_def title_contains_def contains_ci_def dune_def
      emma_def Book_init_def lower_def isascii_def lower_char_def ascii_uppercase_def
      ascii_lowercase_def)

text \<open>
  Claim C8 asks for exactly the records whose title contains the query as a
  case-insensitive substring. The code compares \<open>title.lower()\<close> with
  \<open>book.title.lower()\<close>, and \<open>str.lower\<close> depends on the place of a letter in its word: the
  title of capital alpha and capital sigma becomes small alpha and final sigma, the query
  of one capital sigma becomes the small sigma, and the search misses the record although
  its title contains the query as it stands. The only trace is the line in the log that
  nothing matched.
\<close>

theorem search_by_title_final_sigma:
  "title greek = JStr alpha_sigma \<and>
   sublist capital_sigma alpha_sigma \<and>
   str_lower tables alpha_sigma = alpha_final_sigma \<and>
   str_lower tables capital_sigma = small_sigma \<and>
   search_by_title tables greek_shelf capital_sigma world0
     = (Inr [], logger INFO (Log_no_title_match capital_sigma) world0)"
  by (simp add: greek_def greek_shelf_def Book_init_def tables_def search_by_title_def
      lower_def isascii_def capital_sigma_def alpha_sigma_def small_sigma_def
      alpha_final_sigma_def sublist_Cons_right)

section \<open>Adding records\<close>

text \<open>
  Claim C10. For every repository state, \<open>add_book\<close> with an argument that is not a \<open>Book\<close>
  returns \<open>False\<close> and leaves the in-memory sequence and the files as they were; the only
  effect is one line in the log, so no save is attempted.
\<close>

theorem add_book_not_a_Book:
  "add_book self (Other_obj v) w = (False, self, logger ERROR Log_not_a_book w) \<and>
   files (snd (snd (add_book self (Other_obj v) w))) = files w \<and>
   log (snd (snd (add_book self (Other_obj v) w))) = log w @ [(ERROR, Log_not_a_book)]"
  by (simp add: add_book_def)

theorem add_book_not_a_Book_witness:
  "fst (add_book shelf (Other_obj (JStr ''Dune'')) world0) = False \<and>
   fst (snd (add_book shelf (Other_obj (JStr ''Dune'')) world0)) = shelf \<and>
   files (snd (snd (add_book shelf (Other_obj (JStr ''Dune'')) world0))) ''books.json''
     = Missing \<and>
   log (snd (snd (add_book shelf (Other_obj (JStr ''Dune'')) world0)))
     = [(ERROR, Log_not_a_book)]"
  using add_book_not_a_Book [of shelf "JStr ''Dune''" world0]
  by (simp add: world0_def)


lemma unique_isbns_distinct:
  "list_all (\<lambda>b. is_str (isbn b)) bs \<Longrightarrow> unique_isbns bs = distinct (map isbn bs)"
proof (induction bs)
  case Nil
  show ?case by simp
next
  case (Cons b bs)
  from Cons.prems obtain s where "isbn b = JStr s"
    by (auto simp: is_str_def split: json.splits)
  with Cons show ?case
    by (force simp: list_ex_iff image_iff)
qed



section \<open>Issuing and returning by isbn\<close>

subsection \<open>The position \<open>search_by_isbn\<close> finds\<close>






subsection \<open>The branches of the two handlers\<close>










lemma unsaved_after:
  assumes "w' = logger l m (print x (save_books self (print h w0)))"
    "attempt w0 (file_path self) (JArr (map to_dict (books self))) = Refused"
  shows "files w' = files w0"
  using assms by (simp add: files_save_books)






section \<open>The states a repository reaches\<close>




















section \<open>The end-to-end scenario\<close>

text \<open>
  The scenario of the specification, run on a location without a file: add Dune, issue it,
  issue it again, return it. The inventory, the file, the log and the console at the end.
\<close>

lemma scenario_run:
  "session ''books.json'' world0
     [Add_book (Book_obj dune), Issue_book ''111'', Issue_book ''111'', Return_book ''111'']
   = Some (\<lparr>file_path = ''books.json'', books = [dune]\<rparr>,
      \<lparr>files = (files world0)(''books.json'' := Holds (Decodes (JArr
                  [JObj [(''title'', JStr ''Dune''), (''author'', JStr ''Frank Herbert''),
                         (''isbn'', JStr ''111''), (''status'', JStr ''available'')]]))),
       attempt = (\<lambda>p d. Written),
       log = [(INFO, Log_file_not_found ''books.json''),
              (INFO, Log_saved 1 ''books.json''),
              (INFO, Log_added (JStr ''Dune'')),
              (INFO, Log_saved 1 ''books.json''),
              (INFO, Log_issued (JStr ''Dune'') ''111''),
              (WARNING, Log_already_issued ''111''),
              (INFO, Log_saved 1 ''books.json''),
              (INFO, Log_returned (JStr ''Dune'') ''111'')],
       stdout = [Line_issue_header, Line_issued (JStr ''Dune'') ''111'',
                 Line_issue_header, Line_already_issued (JStr ''Dune'') ''111'',
                 Line_return_header, Line_returned (JStr ''Dune'') ''111'']\<rparr>)"
  by (simp add: session_def start_def LibraryInventory_def load_books_def world0_def
      add_book_def save_books_def logger_def print_def dune_def Book_init_def issue_book_def
      return_book_def search_by_isbn_def is_available_def Book_issue_def Book_return_book_def
      to_dict_def Let_def)

text \<open>
  The same scenario where every write is torn: the handlers report the same successes, the
  location holds a file that does not decode, and the next construction starts empty.
\<close>

lemma scenario_torn:
  "(case session ''books.json'' (world0\<lparr>attempt := (\<lambda>p d. Torn)\<rparr>)
           [Add_book (Book_obj dune), Issue_book ''111'', Restart] of
      Some (self, w) \<Rightarrow>
        books self = [] \<and> files w ''books.json'' = Holds Undecodable \<and>
        stdout w = [Line_issue_header, Line_issued (JStr ''Dune'') ''111'']
    | None \<Rightarrow> False)"
  by (simp add: session_def start_def LibraryInventory_def load_books_def world0_def
      add_book_def save_books_def logger_def print_def dune_def Book_init_def issue_book_def
      search_by_isbn_def is_available_def Book_issue_def to_dict_def Let_def)

lemma scenario_searches:
  "fst (search_by_title tables single ''dun'' world0) = Inr [dune] \<and>
   fst (search_by_isbn single ''999'' world0) = None \<and>
   fst (search_by_isbn single ''111'' world0) = Some 0"
  by (simp add: single_def search_by_title_def search_by_isbn_def dune_def Book_init_def
      lower_def isascii_def lower_char_def ascii_uppercase_def
      ascii_lowercase_def)

end
